theory Spec2Isabelle
  imports Main "HOL-Library.Multiset"
begin

section \<open>The word2vec tutorial notebook\<close>

text \<open>
  The repository's source is one Jupyter notebook, \<^verbatim>\<open>docs/notebooks/word2vec.ipynb\<close>,
  run by a Python 2.7 kernel. Its code cells call the gensim library and define two
  iterator classes of their own, \<^verbatim>\<open>MySentences\<close> and \<^verbatim>\<open>MyText\<close>, and a loop that writes
  toy data to disk. The executable part is embedded as HOL functions over an explicit
  file system; the text of the code cells is embedded as a syntax tree, for the
  statements of the specification that are about what the notebook contains.
\<close>

subsection \<open>Python 2 strings and files\<close>

text \<open>
  A Python 2 \<^verbatim>\<open>str\<close> is a byte string: \<^typ>\<open>string\<close>. In the default C locale the
  whitespace bytes of \<^verbatim>\<open>str.split()\<close> are space, tab, line feed, vertical tab, form feed
  and carriage return, and \<^verbatim>\<open>str.lower()\<close> maps the bytes \<^verbatim>\<open>A\<close> .. \<^verbatim>\<open>Z\<close> (65 .. 90) to
  \<^verbatim>\<open>a\<close> .. \<^verbatim>\<open>z\<close> by adding 32 and leaves every other byte alone.
\<close>

definition isspace :: "char \<Rightarrow> bool" where
  "isspace c = (c \<in> set [CHR 0x20, CHR 0x09, CHR 0x0A, CHR 0x0B, CHR 0x0C, CHR 0x0D])"

definition isupper :: "char \<Rightarrow> bool" where
  "isupper c = (65 \<le> (of_char c :: nat) \<and> (of_char c :: nat) \<le> 90)"

definition tolower :: "char \<Rightarrow> char" where
  "tolower c = (if isupper c then char_of ((of_char c :: nat) + 32) else c)"

definition str_lower :: "string \<Rightarrow> string" where
  "str_lower s = map tolower s"

text \<open>
  \<^verbatim>\<open>s.split()\<close> with no separator: runs of whitespace separate the fields, leading and
  trailing whitespace makes no field, so a string of whitespace only gives \<^verbatim>\<open>[]\<close>.
  \<open>split_from tok s\<close> scans \<open>s\<close> with the field \<open>tok\<close> collected so far.
\<close>

fun split_from :: "string \<Rightarrow> string \<Rightarrow> string list" where
  "split_from tok [] = (if tok = [] then [] else [tok])"
| "split_from tok (c # cs) =
     (if isspace c then (if tok = [] then split_from [] cs else tok # split_from [] cs)
      else split_from (tok @ [c]) cs)"

definition str_split :: "string \<Rightarrow> string list" where
  "str_split s = split_from [] s"

text \<open>
  Iterating over a file opened in mode \<^verbatim>\<open>'r'\<close> gives its lines, each with its line feed;
  a last line with no line feed is given as it is, and an empty file has no line.
  \<open>lines_from ln s\<close> scans \<open>s\<close> with the line \<open>ln\<close> collected so far.
\<close>

fun lines_from :: "string \<Rightarrow> string \<Rightarrow> string list" where
  "lines_from ln [] = (if ln = [] then [] else [ln])"
| "lines_from ln (c # cs) =
     (if c = CHR 0x0A then (ln @ [c]) # lines_from [] cs else lines_from (ln @ [c]) cs)"

definition file_lines :: "string \<Rightarrow> string list" where
  "file_lines s = lines_from [] s"

text \<open>\<^verbatim>\<open>os.path.join(a, b)\<close> of \<^verbatim>\<open>posixpath\<close>, for two components.\<close>

definition os_path_join :: "string \<Rightarrow> string \<Rightarrow> string" where
  "os_path_join a b =
     (if b \<noteq> [] \<and> hd b = CHR ''/'' then b
      else if a = [] \<or> last a = CHR ''/'' then a @ b
      else a @ ''/'' @ b)"

subsection \<open>The file system\<close>

text \<open>
  The notebook reads and writes files, so the file system is an explicit state.
  \<open>listing\<close> maps the path of each directory to the names in it, in the order in which
  \<^verbatim>\<open>os.listdir\<close> reports them (an order the operating system chooses); \<open>content\<close> maps
  the path of each regular file to its bytes. Paths are the strings the notebook uses,
  a directory with its closing slash (\<^verbatim>\<open>'./data/'\<close>).
\<close>

datatype error = OSError | IOError | IndexError

record filesystem =
  listing :: "string \<rightharpoonup> string list"
  content :: "string \<rightharpoonup> string"

definition os_listdir :: "filesystem \<Rightarrow> string \<Rightarrow> error + string list" where
  "os_listdir fs path = (case listing fs path of None \<Rightarrow> Inl OSError | Some names \<Rightarrow> Inr names)"

definition py_open :: "filesystem \<Rightarrow> string \<Rightarrow> error + string" where
  "py_open fs path = (case content fs path of None \<Rightarrow> Inl IOError | Some bytes \<Rightarrow> Inr bytes)"

subsection \<open>Cell 6: the class MySentences\<close>

text \<open>
  \<^verbatim>\<open>
  class MySentences(object):
      def __init__(self, dirname):
          self.dirname = dirname

      def __iter__(self):
          for fname in os.listdir(self.dirname):
              for line in open(os.path.join(self.dirname, fname)):
                  yield line.split()
  \<close>
  \<^verbatim>\<open>__iter__\<close> is a generator: it hands its caller one token list after another and may
  end with an exception after some of them. Its run is the pair of the list of the
  values yielded, in order, and the exception that ended it, if any.
\<close>

record MySentences =
  dirname :: string

definition MySentences_init :: "string \<Rightarrow> MySentences" where
  "MySentences_init d = \<lparr>dirname = d\<rparr>"

fun MySentences_lines :: "string list \<Rightarrow> string list list" where
  "MySentences_lines [] = []"
| "MySentences_lines (line # rest) = str_split line # MySentences_lines rest"

fun MySentences_files :: "filesystem \<Rightarrow> MySentences \<Rightarrow> string list \<Rightarrow> string list list \<times> error option" where
  "MySentences_files fs self [] = ([], None)"
| "MySentences_files fs self (fname # rest) =
     (case py_open fs (os_path_join (dirname self) fname) of
        Inl e \<Rightarrow> ([], Some e)
      | Inr bytes \<Rightarrow>
          (case MySentences_files fs self rest of
             (later, r) \<Rightarrow> (MySentences_lines (file_lines bytes) @ later, r)))"

definition MySentences_iter :: "filesystem \<Rightarrow> MySentences \<Rightarrow> string list list \<times> error option" where
  "MySentences_iter fs self =
     (case os_listdir fs (dirname self) of
        Inl e \<Rightarrow> ([], Some e)
      | Inr names \<Rightarrow> MySentences_files fs self names)"

subsection \<open>Writing files\<close>

text \<open>
  \<open>path_dir\<close> is a path up to its last slash, \<open>path_base\<close> what follows that slash.
  Opening a file for writing needs its directory; it creates the file, or empties it when
  it exists, and a created file is reported last by the directory. \<^verbatim>\<open>os.makedirs\<close>
  refuses a path that exists. \<^verbatim>\<open>write\<close> appends to the file.
\<close>

definition path_dir :: "string \<Rightarrow> string" where
  "path_dir p = rev (dropWhile (\<lambda>c. c \<noteq> CHR ''/'') (rev p))"

definition path_base :: "string \<Rightarrow> string" where
  "path_base p = rev (takeWhile (\<lambda>c. c \<noteq> CHR ''/'') (rev p))"

definition os_path_exists :: "filesystem \<Rightarrow> string \<Rightarrow> bool" where
  "os_path_exists fs path =
     (case listing fs path of
        Some names \<Rightarrow> True
      | None \<Rightarrow> (case content fs path of Some bytes \<Rightarrow> True | None \<Rightarrow> False))"

definition os_makedirs :: "filesystem \<Rightarrow> string \<Rightarrow> error + filesystem" where
  "os_makedirs fs path =
     (if os_path_exists fs path then Inl OSError
      else Inr (fs\<lparr>listing := (listing fs)(path \<mapsto> [])\<rparr>))"

definition open_w :: "filesystem \<Rightarrow> string \<Rightarrow> error + filesystem" where
  "open_w fs path =
     (case listing fs (path_dir path) of
        None \<Rightarrow> Inl IOError
      | Some names \<Rightarrow>
          Inr (fs\<lparr>listing := (listing fs)(path_dir path \<mapsto>
                      (if path_base path \<in> set names then names else names @ [path_base path])),
                  content := (content fs)(path \<mapsto> [])\<rparr>))"

definition file_write :: "filesystem \<Rightarrow> string \<Rightarrow> string \<Rightarrow> filesystem" where
  "file_write fs path s =
     fs\<lparr>content := (content fs)(path \<mapsto> (case content fs path of None \<Rightarrow> s | Some old \<Rightarrow> old @ s))\<rparr>"

subsection \<open>Cells 3 and 5: the toy data\<close>

text \<open>
  \<^verbatim>\<open>
  sentences = [['first', 'sentence'], ['second', 'sentence']]

  if not os.path.exists('./data/'):
      os.makedirs('./data/')

  filenames = ['./data/f1.txt', './data/f2.txt']

  for i, fname in enumerate(filenames):
      with smart_open.smart_open(fname, 'w') as fout:
          for line in sentences[i]:
              fout.write(line + '\n')
  \<close>
  For a local path \<^verbatim>\<open>smart_open\<close> is \<^verbatim>\<open>open\<close>. \<open>write_words\<close> is the inner loop,
  \<open>write_files\<close> the outer one with its counter \<open>i\<close>; \<^verbatim>\<open>sentences[i]\<close> is read after
  the file is opened and raises IndexError out of range.
\<close>

definition sentences :: "string list list" where
  "sentences = [[''first'', ''sentence''], [''second'', ''sentence'']]"

definition filenames :: "string list" where
  "filenames = [''./data/f1.txt'', ''./data/f2.txt'']"

fun write_words :: "filesystem \<Rightarrow> string \<Rightarrow> string list \<Rightarrow> filesystem" where
  "write_words fs fname [] = fs"
| "write_words fs fname (line # rest) =
     write_words (file_write fs fname (line @ [CHR 0x0A])) fname rest"

fun write_files :: "filesystem \<Rightarrow> string list list \<Rightarrow> nat \<Rightarrow> string list \<Rightarrow> error + filesystem" where
  "write_files fs sents i [] = Inr fs"
| "write_files fs sents i (fname # rest) =
     (case open_w fs fname of
        Inl e \<Rightarrow> Inl e
      | Inr fs1 \<Rightarrow>
          (if i < length sents
           then write_files (write_words fs1 fname (sents ! i)) sents (Suc i) rest
           else Inl IndexError))"

definition cell5 :: "filesystem \<Rightarrow> error + filesystem" where
  "cell5 fs =
     (case (if os_path_exists fs ''./data/'' then Inr fs else os_makedirs fs ''./data/'') of
        Inl e \<Rightarrow> Inl e
      | Inr fs1 \<Rightarrow> write_files fs1 sentences 0 filenames)"

text \<open>
  \<^verbatim>\<open>os.listdir\<close> promises no order. \<open>reordered fs d ns\<close> is \<open>fs\<close> with the directory \<open>d\<close>
  reporting its names as \<open>ns\<close>.
\<close>

definition reordered :: "filesystem \<Rightarrow> string \<Rightarrow> string list \<Rightarrow> filesystem" where
  "reordered fs d ns = fs\<lparr>listing := (listing fs)(d \<mapsto> ns)\<rparr>"

subsection \<open>Cells 14 and 15: the class MyText\<close>

text \<open>
  \<^verbatim>\<open>
  test_data_dir = '{}'.format(os.sep).join([gensim.__path__[0], 'test', 'test_data']) + os.sep
  lee_train_file = test_data_dir + 'lee_background.cor'

  class MyText(object):
      def __iter__(self):
          for line in open(lee_train_file):
              # assume there's one document per line, tokens separated by whitespace
              yield line.lower().split()
  \<close>
  \<^verbatim>\<open>gensim.__path__[0]\<close> and \<^verbatim>\<open>os.sep\<close> belong to the installation and are parameters.
\<close>

fun str_join :: "string \<Rightarrow> string list \<Rightarrow> string" where
  "str_join sep [] = []"
| "str_join sep [x] = x"
| "str_join sep (x # y # rest) = x @ sep @ str_join sep (y # rest)"

definition test_data_dir :: "string \<Rightarrow> string \<Rightarrow> string" where
  "test_data_dir gensim_path os_sep = str_join os_sep [gensim_path, ''test'', ''test_data''] @ os_sep"

definition lee_train_file :: "string \<Rightarrow> string \<Rightarrow> string" where
  "lee_train_file gensim_path os_sep = test_data_dir gensim_path os_sep @ ''lee_background.cor''"

fun MyText_lines :: "string list \<Rightarrow> string list list" where
  "MyText_lines [] = []"
| "MyText_lines (line # rest) = str_split (str_lower line) # MyText_lines rest"

definition MyText_iter :: "filesystem \<Rightarrow> string \<Rightarrow> string \<Rightarrow> string list list \<times> error option" where
  "MyText_iter fs gensim_path os_sep =
     (case py_open fs (lee_train_file gensim_path os_sep) of
        Inl e \<Rightarrow> ([], Some e)
      | Inr bytes \<Rightarrow> (MyText_lines (file_lines bytes), None))"

subsection \<open>The vocabulary of a model\<close>

text \<open>
  Modelled from the spec: the vocabulary that gensim's \<^verbatim>\<open>Word2Vec\<close> builds from its
  sentences (\<^verbatim>\<open>build_vocab\<close>, which is not among the sources). The specification's
  glossary defines it as the set of distinct tokens observed during a first pass over
  the input sentences; the notebook adds that \<^verbatim>\<open>min_count\<close> prunes it, a word seen fewer
  times than \<^verbatim>\<open>min_count\<close> being ignored.
\<close>

definition vocabulary :: "nat \<Rightarrow> string list list \<Rightarrow> string set" where
  "vocabulary min_count sents =
     set (filter (\<lambda>w. min_count \<le> count_list (concat sents) w) (concat sents))"

text \<open>A file system for examples: a directory of two files, one with an empty line.\<close>

definition example_fs :: filesystem where
  "example_fs =
     \<lparr>listing = [''corpus/'' \<mapsto> [''b.txt'', ''a.txt'']],
      content = [''corpus/a.txt'' \<mapsto> ''Human  Machine'' @ [CHR 0x0A, CHR 0x0A] @ ''Tree'',
                 ''corpus/b.txt'' \<mapsto> ''a b'' @ [CHR 0x09, CHR 0x0A],
                 ''/opt/gensim/test/test_data/lee_background.cor'' \<mapsto>
                    ''Hundreds of People'' @ [CHR 0x0A] @ ''fled A Fire'' @ [CHR 0x0A]]\<rparr>"

definition empty_fs :: filesystem where
  "empty_fs = \<lparr>listing = Map.empty, content = Map.empty\<rparr>"

section \<open>The text of the notebook\<close>

text \<open>
  Several statements of the specification are about what the notebook contains rather
  than about what its code computes. For them the code cells are embedded as syntax
  trees, in the abstract grammar of Python 2.7 (module \<^verbatim>\<open>ast\<close>): the statement and
  expression forms the notebook uses, and the forms whose absence is to be shown.
\<close>

subsection \<open>Expressions and statements\<close>

datatype operator = Add | Sub | Mult | Div | Mod | Pow

datatype expr =
    Name string
  | Str string
  | Num int
  | Attribute expr string
  | Subscript expr expr
  | Call expr "expr list" "(string \<times> expr) list"
  | ListE "expr list"
  | TupleE "expr list"
  | BinOp expr operator expr
  | UnaryNot expr
  | BoolOp "expr list"
  | Compare expr "expr list"
  | IfExp expr expr expr
  | ListComp expr expr expr "expr list"
  | Lambda "string list" expr
  | Yield expr

datatype stmt =
    Import "string list"
  | ImportFrom string "string list"
  | Assign "expr list" expr
  | AugAssign expr operator expr
  | Expr expr
  | Print "expr list"
  | IfStmt expr "stmt list" "stmt list"
  | For expr expr "stmt list" "stmt list"
  | While expr "stmt list" "stmt list"
  | With expr "expr option" "stmt list"
  | TryExcept "stmt list" "(expr option \<times> expr option \<times> stmt list) list" "stmt list"
  | TryFinally "stmt list" "stmt list"
  | Raise "expr option"
  | Assert expr
  | Return "expr option"
  | Pass
  | Break
  | Continue
  | ClassDef string "expr list" "stmt list"
  | FunctionDef string "string list" "stmt list"

text \<open>A cell is prose or code; the notebook is the list of its cells, counted from 0.\<close>

datatype cell = Markdown | Code "stmt list"

subsection \<open>Traversals\<close>

text \<open>
  \<open>sub_exprs e\<close> lists \<open>e\<close> and every expression inside it; \<open>sub_stmts s\<close> lists \<open>s\<close> and
  every statement nested in it; \<open>stmt_exprs s\<close> lists the expressions that stand in \<open>s\<close>
  itself, outside its nested statements.
\<close>

fun sub_exprs :: "expr \<Rightarrow> expr list" where
  "sub_exprs (Name n) = [Name n]"
| "sub_exprs (Str s) = [Str s]"
| "sub_exprs (Num k) = [Num k]"
| "sub_exprs (Attribute e a) = Attribute e a # sub_exprs e"
| "sub_exprs (Subscript e i) = Subscript e i # sub_exprs e @ sub_exprs i"
| "sub_exprs (Call f args kws) =
     Call f args kws # sub_exprs f @ concat (map sub_exprs args)
       @ concat (map (\<lambda>(k, v). sub_exprs v) kws)"
| "sub_exprs (ListE es) = ListE es # concat (map sub_exprs es)"
| "sub_exprs (TupleE es) = TupleE es # concat (map sub_exprs es)"
| "sub_exprs (BinOp l op r) = BinOp l op r # sub_exprs l @ sub_exprs r"
| "sub_exprs (UnaryNot e) = UnaryNot e # sub_exprs e"
| "sub_exprs (BoolOp es) = BoolOp es # concat (map sub_exprs es)"
| "sub_exprs (Compare e es) = Compare e es # sub_exprs e @ concat (map sub_exprs es)"
| "sub_exprs (IfExp c a b) = IfExp c a b # sub_exprs c @ sub_exprs a @ sub_exprs b"
| "sub_exprs (ListComp e t i cs) =
     ListComp e t i cs # sub_exprs e @ sub_exprs t @ sub_exprs i @ concat (map sub_exprs cs)"
| "sub_exprs (Lambda ps e) = Lambda ps e # sub_exprs e"
| "sub_exprs (Yield e) = Yield e # sub_exprs e"

fun sub_stmts :: "stmt \<Rightarrow> stmt list" where
  "sub_stmts (IfStmt c a b) = IfStmt c a b # concat (map sub_stmts a) @ concat (map sub_stmts b)"
| "sub_stmts (For t i a b) = For t i a b # concat (map sub_stmts a) @ concat (map sub_stmts b)"
| "sub_stmts (While c a b) = While c a b # concat (map sub_stmts a) @ concat (map sub_stmts b)"
| "sub_stmts (With e v a) = With e v a # concat (map sub_stmts a)"
| "sub_stmts (TryExcept a hs b) =
     TryExcept a hs b # concat (map sub_stmts a)
       @ concat (map (\<lambda>(t, n, h). concat (map sub_stmts h)) hs) @ concat (map sub_stmts b)"
| "sub_stmts (TryFinally a b) = TryFinally a b # concat (map sub_stmts a) @ concat (map sub_stmts b)"
| "sub_stmts (ClassDef n bs a) = ClassDef n bs a # concat (map sub_stmts a)"
| "sub_stmts (FunctionDef n ps a) = FunctionDef n ps a # concat (map sub_stmts a)"
| "sub_stmts s = [s]"

fun opt_list :: "'a option \<Rightarrow> 'a list" where
  "opt_list None = []"
| "opt_list (Some x) = [x]"

fun stmt_exprs :: "stmt \<Rightarrow> expr list" where
  "stmt_exprs (Assign ts v) = ts @ [v]"
| "stmt_exprs (AugAssign t op v) = [t, v]"
| "stmt_exprs (Expr e) = [e]"
| "stmt_exprs (Print es) = es"
| "stmt_exprs (IfStmt c a b) = [c]"
| "stmt_exprs (For t i a b) = [t, i]"
| "stmt_exprs (While c a b) = [c]"
| "stmt_exprs (With e v a) = e # opt_list v"
| "stmt_exprs (TryExcept a hs b) = concat (map (\<lambda>(t, n, h). opt_list t @ opt_list n) hs)"
| "stmt_exprs (Raise e) = opt_list e"
| "stmt_exprs (Assert e) = [e]"
| "stmt_exprs (Return e) = opt_list e"
| "stmt_exprs (ClassDef n bs a) = bs"
| "stmt_exprs s = []"

definition code_cells :: "cell list \<Rightarrow> (nat \<times> stmt list) list" where
  "code_cells nb =
     concat (map (\<lambda>(i, c). case c of Markdown \<Rightarrow> [] | Code ss \<Rightarrow> [(i, ss)]) (enumerate 0 nb))"

definition cell_stmts :: "stmt list \<Rightarrow> stmt list" where
  "cell_stmts ss = concat (map sub_stmts ss)"

definition stmts_exprs :: "stmt list \<Rightarrow> expr list" where
  "stmts_exprs ss = concat (map sub_exprs (concat (map stmt_exprs ss)))"

definition statements :: "cell list \<Rightarrow> stmt list" where
  "statements nb = concat (map (\<lambda>(i, ss). cell_stmts ss) (code_cells nb))"

definition expressions :: "cell list \<Rightarrow> expr list" where
  "expressions nb = stmts_exprs (statements nb)"

subsection \<open>The code cells\<close>

text \<open>
  Cell 2.
  \<^verbatim>\<open>
  import gensim, logging
  logging.basicConfig(format='%(asctime)s : %(levelname)s : %(message)s', level=logging.INFO)
  \<close>
\<close>

definition cell_2 :: "stmt list" where
  "cell_2 =
     [Import [''gensim'', ''logging''],
      Expr (Call (Attribute (Name ''logging'') ''basicConfig'') []
        [(''format'', Str ''%(asctime)s : %(levelname)s : %(message)s''),
         (''level'', Attribute (Name ''logging'') ''INFO'')])]"

text \<open>
  The constructor \<^verbatim>\<open>gensim.models.Word2Vec\<close>, which nine cells name.
\<close>

definition Word2Vec :: expr where
  "Word2Vec = Attribute (Attribute (Name ''gensim'') ''models'') ''Word2Vec''"

text \<open>
  Cell 3.
  \<^verbatim>\<open>
  sentences = [['first', 'sentence'], ['second', 'sentence']]
  model = gensim.models.Word2Vec(sentences, min_count=1)
  \<close>
\<close>

definition cell_3 :: "stmt list" where
  "cell_3 =
     [Assign [Name ''sentences'']
        (ListE [ListE [Str ''first'', Str ''sentence''], ListE [Str ''second'', Str ''sentence'']]),
      Assign [Name ''model''] (Call Word2Vec [Name ''sentences''] [(''min_count'', Num 1)])]"

text \<open>
  Cell 5.
  \<^verbatim>\<open>
  import smart_open, os
  if not os.path.exists('./data/'):
      os.makedirs('./data/')
  filenames = ['./data/f1.txt', './data/f2.txt']
  for i, fname in enumerate(filenames):
      with smart_open.smart_open(fname, 'w') as fout:
          for line in sentences[i]:
              fout.write(line + '\n')
  \<close>
\<close>

definition cell_5 :: "stmt list" where
  "cell_5 =
     [Import [''smart_open'', ''os''],
      IfStmt (UnaryNot (Call (Attribute (Attribute (Name ''os'') ''path'') ''exists'') [Str ''./data/''] []))
        [Expr (Call (Attribute (Name ''os'') ''makedirs'') [Str ''./data/''] [])]
        [],
      Assign [Name ''filenames''] (ListE [Str ''./data/f1.txt'', Str ''./data/f2.txt'']),
      For (TupleE [Name ''i'', Name ''fname'']) (Call (Name ''enumerate'') [Name ''filenames''] [])
        [With (Call (Attribute (Name ''smart_open'') ''smart_open'') [Name ''fname'', Str ''w''] [])
           (Some (Name ''fout''))
           [For (Name ''line'') (Subscript (Name ''sentences'') (Name ''i''))
              [Expr (Call (Attribute (Name ''fout'') ''write'')
                 [BinOp (Name ''line'') Add (Str [CHR 0x0A])] [])]
              []]]
        []]"

text \<open>
  Cell 6.
  \<^verbatim>\<open>
  class MySentences(object):
      def __init__(self, dirname):
          self.dirname = dirname

      def __iter__(self):
          for fname in os.listdir(self.dirname):
              for line in open(os.path.join(self.dirname, fname)):
                  yield line.split()
  \<close>
\<close>

definition cell_6 :: "stmt list" where
  "cell_6 =
     [ClassDef ''MySentences'' [Name ''object'']
        [FunctionDef ''__init__'' [''self'', ''dirname'']
           [Assign [Attribute (Name ''self'') ''dirname''] (Name ''dirname'')],
         FunctionDef ''__iter__'' [''self'']
           [For (Name ''fname'')
              (Call (Attribute (Name ''os'') ''listdir'') [Attribute (Name ''self'') ''dirname''] [])
              [For (Name ''line'')
                 (Call (Name ''open'')
                    [Call (Attribute (Attribute (Name ''os'') ''path'') ''join'')
                       [Attribute (Name ''self'') ''dirname'', Name ''fname''] []] [])
                 [Expr (Yield (Call (Attribute (Name ''line'') ''split'') [] []))]
                 []]
              []]]]"

text \<open>
  Cells 7, 8 and 9.
  \<^verbatim>\<open>
  sentences = MySentences('./data/') # a memory-friendly iterator
  print(list(sentences))
  \<close>
  \<^verbatim>\<open>
  model = gensim.models.Word2Vec(sentences, min_count=1)
  \<close>
  \<^verbatim>\<open>
  print(model)
  print(model.wv.vocab)
  \<close>
\<close>

definition cell_7 :: "stmt list" where
  "cell_7 =
     [Assign [Name ''sentences''] (Call (Name ''MySentences'') [Str ''./data/''] []),
      Print [Call (Name ''list'') [Name ''sentences''] []]]"

definition cell_8 :: "stmt list" where
  "cell_8 = [Assign [Name ''model''] (Call Word2Vec [Name ''sentences''] [(''min_count'', Num 1)])]"

definition cell_9 :: "stmt list" where
  "cell_9 =
     [Print [Name ''model''],
      Print [Attribute (Attribute (Name ''model'') ''wv'') ''vocab'']]"

text \<open>
  Cells 11 and 12.
  \<^verbatim>\<open>
  new_model = gensim.models.Word2Vec(min_count=1)  # an empty model, no training
  new_model.build_vocab(sentences)                 # can be a non-repeatable, 1-pass generator
  new_model.train(sentences)                       # can be a non-repeatable, 1-pass generator
  \<close>
  \<^verbatim>\<open>
  print(new_model)
  print(model.wv.vocab)
  \<close>
\<close>

definition cell_11 :: "stmt list" where
  "cell_11 =
     [Assign [Name ''new_model''] (Call Word2Vec [] [(''min_count'', Num 1)]),
      Expr (Call (Attribute (Name ''new_model'') ''build_vocab'') [Name ''sentences''] []),
      Expr (Call (Attribute (Name ''new_model'') ''train'') [Name ''sentences''] [])]"

definition cell_12 :: "stmt list" where
  "cell_12 =
     [Print [Name ''new_model''],
      Print [Attribute (Attribute (Name ''model'') ''wv'') ''vocab'']]"

text \<open>
  Cells 14 and 15.
  \<^verbatim>\<open>
  test_data_dir = '{}'.format(os.sep).join([gensim.__path__[0], 'test', 'test_data']) + os.sep
  lee_train_file = test_data_dir + 'lee_background.cor'
  \<close>
  \<^verbatim>\<open>
  class MyText(object):
      def __iter__(self):
          for line in open(lee_train_file):
              # assume there's one document per line, tokens separated by whitespace
              yield line.lower().split()

  sentences = MyText()

  print(sentences)
  \<close>
\<close>

definition cell_14 :: "stmt list" where
  "cell_14 =
     [Assign [Name ''test_data_dir'']
        (BinOp
           (Call (Attribute
                    (Call (Attribute (Str ''{}'') ''format'') [Attribute (Name ''os'') ''sep''] [])
                    ''join'')
              [ListE [Subscript (Attribute (Name ''gensim'') ''__path__'') (Num 0),
                      Str ''test'', Str ''test_data'']] [])
           Add (Attribute (Name ''os'') ''sep'')),
      Assign [Name ''lee_train_file''] (BinOp (Name ''test_data_dir'') Add (Str ''lee_background.cor''))]"

definition cell_15 :: "stmt list" where
  "cell_15 =
     [ClassDef ''MyText'' [Name ''object'']
        [FunctionDef ''__iter__'' [''self'']
           [For (Name ''line'') (Call (Name ''open'') [Name ''lee_train_file''] [])
              [Expr (Yield (Call (Attribute (Call (Attribute (Name ''line'') ''lower'') [] []) ''split'')
                 [] []))]
              []]],
      Assign [Name ''sentences''] (Call (Name ''MyText'') [] []),
      Print [Name ''sentences'']]"

text \<open>
  Cells 17, 18 and 20.
  \<^verbatim>\<open>
  model = gensim.models.Word2Vec(sentences, min_count=10)
  \<close>
  \<^verbatim>\<open>
  model = gensim.models.Word2Vec(sentences, size=200)
  \<close>
  \<^verbatim>\<open>
  model = gensim.models.Word2Vec(sentences, workers=4)
  \<close>
\<close>

definition cell_17 :: "stmt list" where
  "cell_17 = [Assign [Name ''model''] (Call Word2Vec [Name ''sentences''] [(''min_count'', Num 10)])]"

definition cell_18 :: "stmt list" where
  "cell_18 = [Assign [Name ''model''] (Call Word2Vec [Name ''sentences''] [(''size'', Num 200)])]"

definition cell_20 :: "stmt list" where
  "cell_20 = [Assign [Name ''model''] (Call Word2Vec [Name ''sentences''] [(''workers'', Num 4)])]"

text \<open>
  Cells 25 and 28.
  \<^verbatim>\<open>
  model.accuracy('./datasets/questions-words.txt')
  \<close>
  \<^verbatim>\<open>
  model.evaluate_word_pairs(test_data_dir +'wordsim353.tsv')
  \<close>
\<close>

definition cell_25 :: "stmt list" where
  "cell_25 =
     [Expr (Call (Attribute (Name ''model'') ''accuracy'') [Str ''./datasets/questions-words.txt''] [])]"

definition cell_28 :: "stmt list" where
  "cell_28 =
     [Expr (Call (Attribute (Name ''model'') ''evaluate_word_pairs'')
        [BinOp (Name ''test_data_dir'') Add (Str ''wordsim353.tsv'')] [])]"

text \<open>
  Cells 31 and 32.
  \<^verbatim>\<open>
  from tempfile import mkstemp
  fs, temp_path = mkstemp("gensim_temp")  # creates a temp file
  model.save(temp_path)  # save the model
  \<close>
  \<^verbatim>\<open>
  new_model = gensim.models.Word2Vec.load(temp_path)  # open the model
  \<close>
\<close>

definition cell_31 :: "stmt list" where
  "cell_31 =
     [ImportFrom ''tempfile'' [''mkstemp''],
      Assign [TupleE [Name ''fs'', Name ''temp_path'']] (Call (Name ''mkstemp'') [Str ''gensim_temp''] []),
      Expr (Call (Attribute (Name ''model'') ''save'') [Name ''temp_path''] [])]"

definition cell_32 :: "stmt list" where
  "cell_32 = [Assign [Name ''new_model''] (Call (Attribute Word2Vec ''load'') [Name ''temp_path''] [])]"

text \<open>
  Cell 35.
  \<^verbatim>\<open>
  model = gensim.models.Word2Vec.load(temp_path)
  more_sentences = [['Advanced', 'users', 'can', 'load', 'a', 'model', 'and', 'continue',
                    'training', 'it', 'with', 'more', 'sentences']]
  model.build_vocab(more_sentences, update=True)
  model.train(more_sentences, )
  os.close(fs)
  os.remove(temp_path)
  \<close>
\<close>

definition cell_35 :: "stmt list" where
  "cell_35 =
     [Assign [Name ''model''] (Call (Attribute Word2Vec ''load'') [Name ''temp_path''] []),
      Assign [Name ''more_sentences'']
        (ListE [ListE [Str ''Advanced'', Str ''users'', Str ''can'', Str ''load'', Str ''a'',
                       Str ''model'', Str ''and'', Str ''continue'', Str ''training'', Str ''it'',
                       Str ''with'', Str ''more'', Str ''sentences'']]),
      Expr (Call (Attribute (Name ''model'') ''build_vocab'') [Name ''more_sentences'']
        [(''update'', Name ''True'')]),
      Expr (Call (Attribute (Name ''model'') ''train'') [Name ''more_sentences''] []),
      Expr (Call (Attribute (Name ''os'') ''close'') [Name ''fs''] []),
      Expr (Call (Attribute (Name ''os'') ''remove'') [Name ''temp_path''] [])]"

text \<open>
  Cells 37, 38, 39 and 42; cell 44 is empty.
  \<^verbatim>\<open>
  model.most_similar(positive=['human', 'crime'], negative=['party'], topn=1)
  \<close>
  \<^verbatim>\<open>
  model.doesnt_match("input is lunch he sentence cat".split())
  \<close>
  \<^verbatim>\<open>
  print(model.similarity('human', 'party'))
  print(model.similarity('tree', 'murder'))
  \<close>
  \<^verbatim>\<open>
  model['tree']  # raw NumPy vector of a word
  \<close>
\<close>

definition cell_37 :: "stmt list" where
  "cell_37 =
     [Expr (Call (Attribute (Name ''model'') ''most_similar'') []
        [(''positive'', ListE [Str ''human'', Str ''crime'']),
         (''negative'', ListE [Str ''party'']),
         (''topn'', Num 1)])]"

definition cell_38 :: "stmt list" where
  "cell_38 =
     [Expr (Call (Attribute (Name ''model'') ''doesnt_match'')
        [Call (Attribute (Str ''input is lunch he sentence cat'') ''split'') [] []] [])]"

definition cell_39 :: "stmt list" where
  "cell_39 =
     [Print [Call (Attribute (Name ''model'') ''similarity'') [Str ''human'', Str ''party''] []],
      Print [Call (Attribute (Name ''model'') ''similarity'') [Str ''tree'', Str ''murder''] []]]"

definition cell_42 :: "stmt list" where
  "cell_42 = [Expr (Subscript (Name ''model'') (Str ''tree''))]"

text \<open>The 45 cells in order; the prose cells keep the numbering of the code cells.\<close>

definition notebook :: "cell list" where
  "notebook =
     [Markdown, Markdown, Code cell_2, Code cell_3, Markdown,
      Code cell_5, Code cell_6, Code cell_7, Code cell_8, Code cell_9,
      Markdown, Code cell_11, Code cell_12, Markdown, Code cell_14,
      Code cell_15, Markdown, Code cell_17, Code cell_18, Markdown,
      Code cell_20, Markdown, Markdown, Markdown, Markdown,
      Code cell_25, Markdown, Markdown, Code cell_28, Markdown,
      Markdown, Code cell_31, Code cell_32, Markdown, Markdown,
      Code cell_35, Markdown, Code cell_37, Code cell_38, Code cell_39,
      Markdown, Markdown, Code cell_42, Markdown, Code []]"

subsection \<open>Names the notebook binds\<close>

text \<open>
  \<open>bound_names s\<close> are the names the statement \<open>s\<close> itself binds: imported modules,
  assignment, loop and \<^verbatim>\<open>with\<close> targets, the names of classes and functions, parameters,
  the names of exception handlers. \<open>binders nb v\<close> are the statements of the notebook,
  at any depth, that bind \<open>v\<close>.
\<close>

fun target_names :: "expr \<Rightarrow> string list" where
  "target_names (Name n) = [n]"
| "target_names (TupleE es) = concat (map target_names es)"
| "target_names (ListE es) = concat (map target_names es)"
| "target_names e = []"

fun bound_names :: "stmt \<Rightarrow> string list" where
  "bound_names (Import ns) = ns"
| "bound_names (ImportFrom m ns) = ns"
| "bound_names (Assign ts v) = concat (map target_names ts)"
| "bound_names (AugAssign t op v) = target_names t"
| "bound_names (For t i a b) = target_names t"
| "bound_names (With e v a) = concat (map target_names (opt_list v))"
| "bound_names (TryExcept a hs b) = concat (map (\<lambda>(t, n, h). concat (map target_names (opt_list n))) hs)"
| "bound_names (ClassDef n bs a) = [n]"
| "bound_names (FunctionDef n ps a) = n # ps"
| "bound_names s = []"

fun expr_bound_names :: "expr \<Rightarrow> string list" where
  "expr_bound_names (Lambda ps e) = ps"
| "expr_bound_names (ListComp e t i cs) = target_names t"
| "expr_bound_names e = []"

definition bindings :: "cell list \<Rightarrow> string list" where
  "bindings nb =
     concat (map bound_names (statements nb)) @ concat (map expr_bound_names (expressions nb))"

definition binders :: "cell list \<Rightarrow> string \<Rightarrow> stmt list" where
  "binders nb v = filter (\<lambda>s. v \<in> set (bound_names s)) (statements nb)"

fun is_def :: "stmt \<Rightarrow> bool" where
  "is_def (ClassDef n bs a) = True"
| "is_def (FunctionDef n ps a) = True"
| "is_def s = False"

fun is_function :: "stmt \<Rightarrow> bool" where
  "is_function (FunctionDef n ps a) = True"
| "is_function s = False"

fun def_name :: "stmt \<Rightarrow> string" where
  "def_name (ClassDef n bs a) = ''class '' @ n"
| "def_name (FunctionDef n ps a) = ''def '' @ n"
| "def_name s = []"

definition definitions :: "cell list \<Rightarrow> stmt list" where
  "definitions nb = filter is_def (statements nb)"

subsection \<open>Calls\<close>

text \<open>
  \<open>callee e\<close> is the name a call invokes, the attribute of a method call or the name of
  a plain call; \<open>receiver e\<close> is the expression a method is called on. \<open>root_name e\<close>
  is the name at which a chain of attributes, subscripts and calls starts.
\<close>

fun callee :: "expr \<Rightarrow> string option" where
  "callee (Call (Attribute r n) args kws) = Some n"
| "callee (Call (Name n) args kws) = Some n"
| "callee e = None"

fun receiver :: "expr \<Rightarrow> expr option" where
  "receiver (Call (Attribute r n) args kws) = Some r"
| "receiver e = None"

fun arguments :: "expr \<Rightarrow> expr list" where
  "arguments (Call f args kws) = args"
| "arguments e = []"

fun keyword_names :: "expr \<Rightarrow> string list" where
  "keyword_names (Call f args kws) = map fst kws"
| "keyword_names e = []"

fun root_name :: "expr \<Rightarrow> string option" where
  "root_name (Name n) = Some n"
| "root_name (Attribute e a) = root_name e"
| "root_name (Subscript e i) = root_name e"
| "root_name (Call f args kws) = root_name f"
| "root_name e = None"

definition invokes :: "string list \<Rightarrow> expr \<Rightarrow> bool" where
  "invokes ops e = (case callee e of None \<Rightarrow> False | Some n \<Rightarrow> n \<in> set ops)"

definition invocations :: "cell list \<Rightarrow> string list \<Rightarrow> expr list" where
  "invocations nb ops = filter (invokes ops) (expressions nb)"

text \<open>The operations of the library that the specification names.\<close>

definition library_ops :: "string list" where
  "library_ops = [''Word2Vec'', ''build_vocab'', ''train'', ''most_similar'', ''save'', ''load'']"

text \<open>
  A variable is a library object when something binds it and every statement that binds
  it assigns to it alone a value reached from the name \<^verbatim>\<open>gensim\<close>. A call goes to the
  library when it is a method call on such a variable or on an expression that starts
  at the name \<^verbatim>\<open>gensim\<close>.
\<close>

fun gensim_assignment :: "stmt \<Rightarrow> bool" where
  "gensim_assignment (Assign [Name v] e) = (root_name e = Some ''gensim'')"
| "gensim_assignment s = False"

definition library_object :: "cell list \<Rightarrow> string \<Rightarrow> bool" where
  "library_object nb v = (binders nb v \<noteq> [] \<and> list_all gensim_assignment (binders nb v))"

fun library_receiver :: "cell list \<Rightarrow> expr \<Rightarrow> bool" where
  "library_receiver nb (Name v) = library_object nb v"
| "library_receiver nb r = (root_name r = Some ''gensim'')"

definition library_call :: "cell list \<Rightarrow> expr \<Rightarrow> bool" where
  "library_call nb e = (case receiver e of None \<Rightarrow> False | Some r \<Rightarrow> library_receiver nb r)"

definition defined_here :: "cell list \<Rightarrow> string list \<Rightarrow> string list" where
  "defined_here nb ops = filter (\<lambda>n. n \<in> set ops) (bindings nb)"

subsection \<open>Control flow and error handling\<close>

fun is_loop :: "stmt \<Rightarrow> bool" where
  "is_loop (For t i a b) = True"
| "is_loop (While c a b) = True"
| "is_loop s = False"

fun is_branch :: "stmt \<Rightarrow> bool" where
  "is_branch (IfStmt c a b) = True"
| "is_branch s = False"

fun is_control_flow :: "stmt \<Rightarrow> bool" where
  "is_control_flow (For t i a b) = True"
| "is_control_flow (While c a b) = True"
| "is_control_flow (IfStmt c a b) = True"
| "is_control_flow Break = True"
| "is_control_flow Continue = True"
| "is_control_flow (Return e) = True"
| "is_control_flow s = False"

text \<open>
  The expression forms that steer or decide control: the boolean operators \<^verbatim>\<open>not\<close>,
  \<^verbatim>\<open>and\<close> and \<^verbatim>\<open>or\<close>, conditional expressions, comprehensions, lambdas and
  \<^verbatim>\<open>yield\<close>.
\<close>

fun is_control_expr :: "expr \<Rightarrow> bool" where
  "is_control_expr (UnaryNot e) = True"
| "is_control_expr (BoolOp es) = True"
| "is_control_expr (IfExp c a b) = True"
| "is_control_expr (Yield e) = True"
| "is_control_expr (ListComp e t i cs) = True"
| "is_control_expr (Lambda ps e) = True"
| "is_control_expr e = False"

fun is_with :: "stmt \<Rightarrow> bool" where
  "is_with (With e v a) = True"
| "is_with s = False"

fun is_error_handling :: "stmt \<Rightarrow> bool" where
  "is_error_handling (TryExcept a hs b) = True"
| "is_error_handling (TryFinally a b) = True"
| "is_error_handling (Raise e) = True"
| "is_error_handling (Assert e) = True"
| "is_error_handling s = False"

definition control_flow :: "stmt list \<Rightarrow> stmt list" where
  "control_flow ss = filter is_control_flow (cell_stmts ss)"

definition control_flow_stmts :: "cell list \<Rightarrow> stmt list" where
  "control_flow_stmts nb = filter is_control_flow (statements nb)"

definition control_flow_cells :: "cell list \<Rightarrow> nat list" where
  "control_flow_cells nb = map fst (filter (\<lambda>(i, ss). control_flow ss \<noteq> []) (code_cells nb))"

definition control_exprs :: "cell list \<Rightarrow> expr list" where
  "control_exprs nb = filter is_control_expr (expressions nb)"

definition loops :: "cell list \<Rightarrow> stmt list" where
  "loops nb = filter is_loop (statements nb)"

definition branches :: "cell list \<Rightarrow> stmt list" where
  "branches nb = filter is_branch (statements nb)"

definition with_stmts :: "cell list \<Rightarrow> stmt list" where
  "with_stmts nb = filter is_with (statements nb)"

definition error_handling :: "cell list \<Rightarrow> stmt list" where
  "error_handling nb = filter is_error_handling (statements nb)"

text \<open>
  Data flow between statements. \<open>reads s\<close> are the expressions \<open>s\<close> evaluates: of a
  binding target only what it reads, the object of an attribute and the object and index
  of a subscript. \<open>variable_names s\<close> are the variables \<open>s\<close> binds: the targets of an
  assignment, of \<^verbatim>\<open>for\<close> and of \<^verbatim>\<open>with\<close>, the name of an exception handler and the
  parameters of a function; modules, classes and function names are not variables.
  \<open>variables_passed_on nb\<close> are the variables, bound by a statement or inside an
  expression, that some statement reads.
\<close>

fun target_reads :: "expr \<Rightarrow> expr list" where
  "target_reads (TupleE es) = concat (map target_reads es)"
| "target_reads (ListE es) = concat (map target_reads es)"
| "target_reads (Attribute e a) = [e]"
| "target_reads (Subscript e i) = [e, i]"
| "target_reads e = []"

fun reads :: "stmt \<Rightarrow> expr list" where
  "reads (Assign ts v) = v # concat (map target_reads ts)"
| "reads (For t i a b) = i # target_reads t"
| "reads (With e v a) = e # concat (map target_reads (opt_list v))"
| "reads s = stmt_exprs s"

fun variable_names :: "stmt \<Rightarrow> string list" where
  "variable_names (Import ns) = []"
| "variable_names (ImportFrom m ns) = []"
| "variable_names (ClassDef n bs a) = []"
| "variable_names (FunctionDef n ps a) = ps"
| "variable_names s = bound_names s"

fun name_of :: "expr \<Rightarrow> string list" where
  "name_of (Name n) = [n]"
| "name_of e = []"

definition names_read :: "cell list \<Rightarrow> string list" where
  "names_read nb =
     concat (map name_of (concat (map sub_exprs (concat (map reads (statements nb))))))"

definition variables_passed_on :: "cell list \<Rightarrow> string list" where
  "variables_passed_on nb =
     remdups (filter (\<lambda>n. n \<in> set (names_read nb))
       (concat (map variable_names (statements nb)) @ concat (map expr_bound_names (expressions nb))))"

subsection \<open>Logic of the notebook's own\<close>

text \<open>
  \<open>logic_defs nb\<close> are the functions defined in the notebook whose body has control
  flow. \<open>nested_callees nb\<close> are the names called inside a loop or a function body.
  \<open>operators nb\<close> are the binary operators that occur, in expressions and in augmented
  assignments.
\<close>

definition logic_defs :: "cell list \<Rightarrow> stmt list" where
  "logic_defs nb = filter (\<lambda>s. is_function s \<and> control_flow [s] \<noteq> []) (statements nb)"

fun is_nesting :: "stmt \<Rightarrow> bool" where
  "is_nesting (For t i a b) = True"
| "is_nesting (While c a b) = True"
| "is_nesting (FunctionDef n ps a) = True"
| "is_nesting s = False"

definition nested_callees :: "cell list \<Rightarrow> string list" where
  "nested_callees nb =
     remdups (concat (map (\<lambda>e. opt_list (callee e))
       (stmts_exprs (concat (map sub_stmts (filter is_nesting (statements nb)))))))"

fun expr_operator :: "expr \<Rightarrow> operator list" where
  "expr_operator (BinOp l op r) = [op]"
| "expr_operator e = []"

fun stmt_operator :: "stmt \<Rightarrow> operator list" where
  "stmt_operator (AugAssign t op v) = [op]"
| "stmt_operator s = []"

definition operators :: "cell list \<Rightarrow> operator list" where
  "operators nb =
     concat (map expr_operator (expressions nb)) @ concat (map stmt_operator (statements nb))"

text \<open>The fields the notebook's classes assign: attributes of \<^verbatim>\<open>self\<close> that are targets.\<close>

fun self_field :: "expr \<Rightarrow> string list" where
  "self_field (Attribute (Name n) a) = (if n = ''self'' then [a] else [])"
| "self_field e = []"

fun assigned_fields :: "stmt \<Rightarrow> string list" where
  "assigned_fields (Assign ts v) = concat (map self_field ts)"
| "assigned_fields s = []"

definition fields :: "cell list \<Rightarrow> string list" where
  "fields nb = concat (map assigned_fields (statements nb))"

subsection \<open>Options of the constructor\<close>

definition constructor_calls :: "cell list \<Rightarrow> expr list" where
  "constructor_calls nb = filter (\<lambda>e. case e of Call f args kws \<Rightarrow> f = Word2Vec | _ \<Rightarrow> False) (expressions nb)"

definition constructor_options :: "cell list \<Rightarrow> string list" where
  "constructor_options nb = remdups (concat (map keyword_names (constructor_calls nb)))"

section \<open>Properties\<close>

subsection \<open>Splitting\<close>

lemma split_from_spaces:
  "list_all isspace s \<Longrightarrow> split_from tok s = (if tok = [] then [] else [tok])"
  by (induction s arbitrary: tok) auto

lemma str_split_spaces: "list_all isspace s \<Longrightarrow> str_split s = []"
  by (simp add: str_split_def split_from_spaces)

lemma MySentences_lines_map: "MySentences_lines ls = map str_split ls"
  by (induction ls) auto

subsection \<open>MySentences\<close>

lemma MySentences_files_all_open:
  "list_all (\<lambda>n. content fs (os_path_join (dirname self) n) \<noteq> None) names \<Longrightarrow>
   MySentences_files fs self names =
     (concat (map (\<lambda>n. map str_split (file_lines (the (content fs (os_path_join (dirname self) n))))) names),
      None)"
proof (induction names)
  case Nil
  then show ?case by simp
next
  case (Cons n names)
  then obtain bytes where b: "content fs (os_path_join (dirname self) n) = Some bytes"
    by auto
  from Cons have "MySentences_files fs self names =
     (concat (map (\<lambda>n. map str_split (file_lines (the (content fs (os_path_join (dirname self) n))))) names),
      None)"
    by simp
  with b show ?case
    by (simp add: py_open_def MySentences_lines_map)
qed

text \<open>
  C3. With the files of a directory fixed, iterating \<^verbatim>\<open>MySentences(dirname)\<close> yields a
  sequence that the file system alone determines: file by file in the order of
  \<^verbatim>\<open>os.listdir(dirname)\<close>, line by line, the whitespace-split token list of each line,
  and it ends without an exception. No line is dropped, so the sequence has one entry
  for each line; the entry of a line of whitespace only (an empty line is its line
  feed) is the empty list, which the consumer receives as an empty sentence.
\<close>

theorem MySentences_iter_yields:
  assumes "listing fs d = Some names"
    and "list_all (\<lambda>n. content fs (os_path_join d n) \<noteq> None) names"
  shows "MySentences_iter fs (MySentences_init d) =
           (concat (map (\<lambda>n. map str_split (file_lines (the (content fs (os_path_join d n))))) names),
            None)
         \<and> length (fst (MySentences_iter fs (MySentences_init d))) =
             sum_list (map (\<lambda>n. length (file_lines (the (content fs (os_path_join d n))))) names)
         \<and> (\<forall>line. list_all isspace line \<longrightarrow> str_split line = [])"
proof -
  have d: "dirname (MySentences_init d) = d"
    by (simp add: MySentences_init_def)
  from assms(2) have "list_all (\<lambda>n. content fs (os_path_join (dirname (MySentences_init d)) n) \<noteq> None) names"
    by (simp add: d)
  from MySentences_files_all_open [OF this] assms(1)
  have eq: "MySentences_iter fs (MySentences_init d) =
           (concat (map (\<lambda>n. map str_split (file_lines (the (content fs (os_path_join d n))))) names),
            None)"
    by (simp add: MySentences_iter_def os_listdir_def d)
  have len: "length (fst (MySentences_iter fs (MySentences_init d))) =
           sum_list (map (\<lambda>n. length (file_lines (the (content fs (os_path_join d n))))) names)"
    by (simp add: eq length_concat comp_def)
  have sp: "\<forall>line. list_all isspace line \<longrightarrow> str_split line = []"
    by (simp add: str_split_spaces)
  from eq len sp show ?thesis
    by blast
qed

lemma example_fs_listing: "listing example_fs ''corpus/'' = Some [''b.txt'', ''a.txt'']"
  by (simp add: example_fs_def)

lemma example_fs_content:
  "content example_fs ''corpus/a.txt'' = Some (''Human  Machine'' @ [CHR 0x0A, CHR 0x0A] @ ''Tree'')"
  "content example_fs ''corpus/b.txt'' = Some (''a b'' @ [CHR 0x09, CHR 0x0A])"
  by (simp_all add: example_fs_def)

theorem MySentences_iter_yields_witness:
  "listing example_fs ''corpus/'' = Some [''b.txt'', ''a.txt'']
   \<and> list_all (\<lambda>n. content example_fs (os_path_join ''corpus/'' n) \<noteq> None) [''b.txt'', ''a.txt'']
   \<and> MySentences_iter example_fs (MySentences_init ''corpus/'') =
       ([[''a'', ''b''], [''Human'', ''Machine''], [], [''Tree'']], None)
   \<and> str_split [CHR 0x20, CHR 0x09, CHR 0x0A] = []"
proof -
  have h1: "listing example_fs ''corpus/'' = Some [''b.txt'', ''a.txt'']"
    by (rule example_fs_listing)
  have h2: "list_all (\<lambda>n. content example_fs (os_path_join ''corpus/'' n) \<noteq> None) [''b.txt'', ''a.txt'']"
    by (simp add: os_path_join_def example_fs_content)
  have v: "concat (map (\<lambda>n. map str_split (file_lines (the (content example_fs (os_path_join ''corpus/'' n)))))
             [''b.txt'', ''a.txt'']) = [[''a'', ''b''], [''Human'', ''Machine''], [], [''Tree'']]"
    by (simp add: os_path_join_def example_fs_content file_lines_def str_split_def isspace_def)
  have s: "list_all isspace [CHR 0x20, CHR 0x09, CHR 0x0A]"
    by (simp add: isspace_def)
  from MySentences_iter_yields [OF h1 h2] v s h1 h2 show ?thesis
    by simp
qed

subsection \<open>The toy data, written and read back\<close>

lemma two_names:
  assumes "mset ns = mset [a, b]"
  shows "ns = [a, b] \<or> ns = [b, a]"
proof -
  from assms have "size (mset ns) = 2" by simp
  then have "length ns = 2" by simp
  then obtain x y where ns: "ns = [x, y]"
    by (metis (no_types) length_0_conv length_Suc_conv numeral_2_eq_2)
  with assms show ?thesis by (auto simp: add_eq_conv_ex)
qed

lemma path_parts:
  "path_dir ''./data/f1.txt'' = ''./data/''" "path_base ''./data/f1.txt'' = ''f1.txt''"
  "path_dir ''./data/f2.txt'' = ''./data/''" "path_base ''./data/f2.txt'' = ''f2.txt''"
  by (simp_all add: path_dir_def path_base_def)

lemma cell5_fresh:
  assumes "\<not> os_path_exists fs0 ''./data/''"
  shows "cell5 fs0 = Inr (fs0\<lparr>listing := (listing fs0)(''./data/'' \<mapsto> [''f1.txt'', ''f2.txt'']),
            content := (content fs0)(''./data/f1.txt'' \<mapsto> ''first'' @ [CHR 0x0A] @ ''sentence'' @ [CHR 0x0A],
               ''./data/f2.txt'' \<mapsto> ''second'' @ [CHR 0x0A] @ ''sentence'' @ [CHR 0x0A])\<rparr>)"
  using assms
  by (simp add: cell5_def os_makedirs_def sentences_def filenames_def open_w_def path_parts
      file_write_def)

lemma toy_run_12:
  assumes "cell5 fs0 = Inr fs1" "\<not> os_path_exists fs0 ''./data/''"
  shows "MySentences_iter (reordered fs1 ''./data/'' [''f1.txt'', ''f2.txt'']) (MySentences_init ''./data/'') =
     ([[''first''], [''sentence''], [''second''], [''sentence'']], None)"
  using assms(1) unfolding cell5_fresh [OF assms(2)]
  by (auto simp add: reordered_def MySentences_iter_def MySentences_init_def os_listdir_def py_open_def
      os_path_join_def file_lines_def str_split_def isspace_def)

lemma toy_run_21:
  assumes "cell5 fs0 = Inr fs1" "\<not> os_path_exists fs0 ''./data/''"
  shows "MySentences_iter (reordered fs1 ''./data/'' [''f2.txt'', ''f1.txt'']) (MySentences_init ''./data/'') =
     ([[''second''], [''sentence''], [''first''], [''sentence'']], None)"
  using assms(1) unfolding cell5_fresh [OF assms(2)]
  by (auto simp add: reordered_def MySentences_iter_def MySentences_init_def os_listdir_def py_open_def
      os_path_join_def file_lines_def str_split_def isspace_def)

lemma empty_fs_fresh: "\<not> os_path_exists empty_fs ''./data/''"
  by (simp add: os_path_exists_def empty_fs_def)

text \<open>
  C8. Writing the toy data and reading it back does not give the sentences back. From
  a file system in which \<^verbatim>\<open>./data/\<close> does not exist yet, cell 5 succeeds and leaves the
  two files in the directory, each word of a sentence on a line of its own. Whatever
  the order in which the directory then reports them, \<^verbatim>\<open>MySentences('./data/')\<close> yields
  one one-word list for each word written, four in all, with the same multiset of tokens
  as the two sentences, and the sequence is not the list of the two sentences. In the
  order \<^verbatim>\<open>f1.txt\<close>, \<^verbatim>\<open>f2.txt\<close> it is the list the notebook prints,
  \<^verbatim>\<open>[['first'], ['sentence'], ['second'], ['sentence']]\<close>.
\<close>

theorem toy_data_round_trip:
  assumes "\<not> os_path_exists fs0 ''./data/''"
    and "mset ns = mset [''f1.txt'', ''f2.txt'']"
  shows "\<exists>fs1 ys. cell5 fs0 = Inr fs1
           \<and> listing fs1 ''./data/'' = Some [''f1.txt'', ''f2.txt'']
           \<and> content fs1 ''./data/f1.txt'' = Some (''first'' @ [CHR 0x0A] @ ''sentence'' @ [CHR 0x0A])
           \<and> content fs1 ''./data/f2.txt'' = Some (''second'' @ [CHR 0x0A] @ ''sentence'' @ [CHR 0x0A])
           \<and> MySentences_iter (reordered fs1 ''./data/'' ns) (MySentences_init ''./data/'') = (ys, None)
           \<and> list_all (\<lambda>s. length s = 1) ys
           \<and> length ys = length (concat sentences)
           \<and> mset (concat ys) = mset (concat sentences)
           \<and> ys \<noteq> sentences
           \<and> (ns = [''f1.txt'', ''f2.txt''] \<longrightarrow>
                ys = [[''first''], [''sentence''], [''second''], [''sentence'']])"
proof -
  from cell5_fresh [OF assms(1)] obtain fs1 where c: "cell5 fs0 = Inr fs1"
    and l: "listing fs1 ''./data/'' = Some [''f1.txt'', ''f2.txt'']"
    and f1: "content fs1 ''./data/f1.txt'' = Some (''first'' @ [CHR 0x0A] @ ''sentence'' @ [CHR 0x0A])"
    and f2: "content fs1 ''./data/f2.txt'' = Some (''second'' @ [CHR 0x0A] @ ''sentence'' @ [CHR 0x0A])"
    by simp
  from two_names [OF assms(2)] show ?thesis
  proof
    assume ns: "ns = [''f1.txt'', ''f2.txt'']"
    from toy_run_12 [OF c assms(1)] c l f1 f2 show ?thesis
      unfolding ns by (simp add: sentences_def)
  next
    assume ns: "ns = [''f2.txt'', ''f1.txt'']"
    from toy_run_21 [OF c assms(1)] c l f1 f2 show ?thesis
      unfolding ns by (simp add: sentences_def)
  qed
qed

theorem toy_data_round_trip_witness:
  "\<not> os_path_exists empty_fs ''./data/''
   \<and> mset [''f1.txt'', ''f2.txt''] = mset [''f1.txt'', ''f2.txt'']
   \<and> (\<exists>fs1. cell5 empty_fs = Inr fs1
         \<and> MySentences_iter (reordered fs1 ''./data/'' [''f1.txt'', ''f2.txt'']) (MySentences_init ''./data/'')
             = ([[''first''], [''sentence''], [''second''], [''sentence'']], None))"
proof -
  have m: "mset [''f1.txt'', ''f2.txt''] = mset [''f1.txt'', ''f2.txt'']"
    by simp
  from toy_data_round_trip [OF empty_fs_fresh m] empty_fs_fresh show ?thesis
    by auto
qed

subsection \<open>The vocabulary\<close>

lemma vocabulary_subset: "vocabulary mc sents \<subseteq> set (concat sents)"
  by (auto simp: vocabulary_def)

lemma count_list_pos: "w \<in> set xs \<Longrightarrow> 1 \<le> count_list xs w"
  by (induction xs) auto

lemma vocabulary_min_count_1: "mc \<le> 1 \<Longrightarrow> vocabulary mc sents = set (concat sents)"
proof -
  assume mc: "mc \<le> 1"
  have "\<And>w. w \<in> set (concat sents) \<Longrightarrow> mc \<le> count_list (concat sents) w"
    using mc count_list_pos [of _ "concat sents"] by (meson le_trans)
  then have "filter (\<lambda>w. mc \<le> count_list (concat sents) w) (concat sents) = concat sents"
    by (simp add: filter_id_conv)
  then show ?thesis by (simp add: vocabulary_def)
qed

text \<open>
  C7. With \<^verbatim>\<open>min_count=1\<close> nothing is pruned and the vocabulary is the set of the
  distinct tokens of the sentences. In the notebook's run (cell 5 from a file system
  without \<^verbatim>\<open>./data/\<close>, the two files reported in either order) the vocabulary of the model
  built with \<^verbatim>\<open>min_count=1\<close> from \<^verbatim>\<open>MySentences('./data/')\<close> is exactly
  \<^verbatim>\<open>{'first', 'second', 'sentence'}\<close>.
\<close>

theorem toy_vocabulary:
  assumes "\<not> os_path_exists fs0 ''./data/''"
    and "mset ns = mset [''f1.txt'', ''f2.txt'']"
  shows "\<exists>fs1 ys. cell5 fs0 = Inr fs1
           \<and> MySentences_iter (reordered fs1 ''./data/'' ns) (MySentences_init ''./data/'') = (ys, None)
           \<and> vocabulary 1 ys = set (concat ys)
           \<and> vocabulary 1 ys = {''first'', ''second'', ''sentence''}"
proof -
  from cell5_fresh [OF assms(1)] obtain fs1 where c: "cell5 fs0 = Inr fs1"
    by simp
  from two_names [OF assms(2)] show ?thesis
  proof
    assume ns: "ns = [''f1.txt'', ''f2.txt'']"
    from toy_run_12 [OF c assms(1)] c show ?thesis
      unfolding ns by (auto simp add: vocabulary_min_count_1)
  next
    assume ns: "ns = [''f2.txt'', ''f1.txt'']"
    from toy_run_21 [OF c assms(1)] c show ?thesis
      unfolding ns by (auto simp add: vocabulary_min_count_1)
  qed
qed

theorem toy_vocabulary_witness:
  "\<not> os_path_exists empty_fs ''./data/''
   \<and> mset [''f2.txt'', ''f1.txt''] = mset [''f1.txt'', ''f2.txt'']
   \<and> (\<exists>fs1. cell5 empty_fs = Inr fs1
         \<and> vocabulary 1 (fst (MySentences_iter (reordered fs1 ''./data/'' [''f2.txt'', ''f1.txt''])
              (MySentences_init ''./data/''))) = {''first'', ''second'', ''sentence''})"
proof -
  have m: "mset [''f2.txt'', ''f1.txt''] = mset [''f1.txt'', ''f2.txt'']"
    by simp
  from toy_vocabulary [OF empty_fs_fresh m] empty_fs_fresh show ?thesis
    by auto
qed

subsection \<open>MyText\<close>

lemma tolower_not_upper: "\<not> isupper (tolower c)"
  by (auto simp: tolower_def isupper_def)

lemma split_from_chars:
  "t \<in> set (split_from tok s) \<Longrightarrow> c \<in> set t \<Longrightarrow> c \<in> set tok \<or> c \<in> set s"
proof (induction s arbitrary: tok)
  case Nil
  then show ?case by (auto split: if_splits)
next
  case (Cons a s)
  show ?case
  proof (cases "isspace a")
    case True
    with Cons.prems have "t = tok \<or> t \<in> set (split_from [] s)"
      by (auto split: if_splits)
    with Cons.IH [of "[]"] Cons.prems(2) show ?thesis by auto
  next
    case False
    with Cons.prems have "t \<in> set (split_from (tok @ [a]) s)" by simp
    from Cons.IH [OF this Cons.prems(2)] show ?thesis by auto
  qed
qed

lemma str_split_chars: "tok \<in> set (str_split s) \<Longrightarrow> c \<in> set tok \<Longrightarrow> c \<in> set s"
  using split_from_chars [of tok "[]" s c] by (simp add: str_split_def)

lemma MyText_lines_map: "MyText_lines ls = map (\<lambda>line. str_split (str_lower line)) ls"
  by (induction ls) auto

lemma MyText_lines_lower:
  assumes "s \<in> set (MyText_lines ls)" "tok \<in> set s" "c \<in> set tok"
  shows "\<not> isupper c"
proof -
  from assms(1) obtain line where "s = str_split (str_lower line)"
    by (auto simp: MyText_lines_map)
  with assms(2,3) have "c \<in> set (str_lower line)"
    by (auto dest: str_split_chars)
  then show ?thesis
    by (auto simp: str_lower_def tolower_not_upper)
qed

lemma MyText_iter_lower:
  assumes "s \<in> set (fst (MyText_iter fs gp sep))" "tok \<in> set s" "c \<in> set tok"
  shows "\<not> isupper c"
  using assms
  by (auto simp: MyText_iter_def split: sum.splits dest: MyText_lines_lower)

text \<open>
  C9. When the corpus file opens, \<^verbatim>\<open>MyText.__iter__\<close> yields, line by line, the
  whitespace-split fields of the lowercased line. No token it yields has an uppercase
  letter, and so no word of a vocabulary \<open>V\<close> drawn from its sentences has one; the
  vocabulary of a model is such a set, whatever \<^verbatim>\<open>min_count\<close> prunes.
\<close>

theorem MyText_iter_lowercase:
  assumes "content fs (lee_train_file gp sep) = Some bytes"
    and "V \<subseteq> set (concat (fst (MyText_iter fs gp sep)))"
  shows "MyText_iter fs gp sep = (map (\<lambda>line. str_split (str_lower line)) (file_lines bytes), None)
      \<and> (\<forall>s\<in>set (fst (MyText_iter fs gp sep)). \<forall>tok\<in>set s. \<forall>c\<in>set tok. \<not> isupper c)
      \<and> (\<forall>w\<in>V. \<forall>c\<in>set w. \<not> isupper c)"
proof -
  have a: "MyText_iter fs gp sep = (map (\<lambda>line. str_split (str_lower line)) (file_lines bytes), None)"
    using assms(1) by (simp add: MyText_iter_def py_open_def MyText_lines_map)
  have b: "\<forall>s\<in>set (fst (MyText_iter fs gp sep)). \<forall>tok\<in>set s. \<forall>c\<in>set tok. \<not> isupper c"
    using MyText_iter_lower by blast
  have c: "\<forall>w\<in>V. \<forall>c\<in>set w. \<not> isupper c"
  proof (intro ballI)
    fix w c
    assume "w \<in> V" and cw: "c \<in> set w"
    with assms(2) have "w \<in> set (concat (fst (MyText_iter fs gp sep)))"
      by blast
    then obtain s where "s \<in> set (fst (MyText_iter fs gp sep))" "w \<in> set s"
      by auto
    with cw show "\<not> isupper c" using MyText_iter_lower by blast
  qed
  from a b c show ?thesis by blast
qed

lemma lee_example: "lee_train_file ''/opt/gensim'' ''/'' = ''/opt/gensim/test/test_data/lee_background.cor''"
  by (simp add: lee_train_file_def test_data_dir_def)

lemma example_lee_content:
  "content example_fs ''/opt/gensim/test/test_data/lee_background.cor'' =
     Some (''Hundreds of People'' @ [CHR 0x0A] @ ''fled A Fire'' @ [CHR 0x0A])"
  by (simp add: example_fs_def)

lemma lower_example:
  "map (\<lambda>line. str_split (str_lower line))
     (file_lines (''Hundreds of People'' @ [CHR 0x0A] @ ''fled A Fire'' @ [CHR 0x0A]))
   = [[''hundreds'', ''of'', ''people''], [''fled'', ''a'', ''fire'']]"
  by code_simp

theorem MyText_iter_lowercase_witness:
  "content example_fs (lee_train_file ''/opt/gensim'' ''/'') =
      Some (''Hundreds of People'' @ [CHR 0x0A] @ ''fled A Fire'' @ [CHR 0x0A])
   \<and> vocabulary 1 (fst (MyText_iter example_fs ''/opt/gensim'' ''/''))
        \<subseteq> set (concat (fst (MyText_iter example_fs ''/opt/gensim'' ''/'')))
   \<and> MyText_iter example_fs ''/opt/gensim'' ''/'' =
      ([[''hundreds'', ''of'', ''people''], [''fled'', ''a'', ''fire'']], None)
   \<and> ''fire'' \<in> vocabulary 1 (fst (MyText_iter example_fs ''/opt/gensim'' ''/''))
   \<and> \<not> isupper (CHR ''f'')"
proof -
  have h: "content example_fs (lee_train_file ''/opt/gensim'' ''/'') =
      Some (''Hundreds of People'' @ [CHR 0x0A] @ ''fled A Fire'' @ [CHR 0x0A])"
    by (simp only: lee_example example_lee_content)
  have v: "vocabulary 1 (fst (MyText_iter example_fs ''/opt/gensim'' ''/''))
        \<subseteq> set (concat (fst (MyText_iter example_fs ''/opt/gensim'' ''/'')))"
    by (rule vocabulary_subset)
  note t = MyText_iter_lowercase [OF h v]
  from t have r: "MyText_iter example_fs ''/opt/gensim'' ''/'' =
      ([[''hundreds'', ''of'', ''people''], [''fled'', ''a'', ''fire'']], None)"
    by (simp only: lower_example)
  have m: "''fire'' \<in> vocabulary 1 (fst (MyText_iter example_fs ''/opt/gensim'' ''/''))"
    by (simp add: r vocabulary_def)
  from t m have "\<not> isupper (CHR ''f'')" by fastforce
  with h v r m show ?thesis by blast
qed

section \<open>What the notebook contains\<close>

subsection \<open>Facts computed from the cells\<close>

lemma calls_go_to_library: "list_all (library_call notebook) (invocations notebook library_ops)"
  by code_simp

lemma library_invocations:
  "map callee (invocations notebook library_ops) =
     [Some ''Word2Vec'', Some ''Word2Vec'', Some ''Word2Vec'', Some ''build_vocab'', Some ''train'',
      Some ''Word2Vec'', Some ''Word2Vec'', Some ''Word2Vec'', Some ''save'', Some ''load'',
      Some ''load'', Some ''build_vocab'', Some ''train'', Some ''most_similar'']"
  by code_simp

lemma gensim_imported: "binders notebook ''gensim'' = [Import [''gensim'', ''logging'']]"
  by code_simp

lemma none_defined_here: "defined_here notebook library_ops = []"
  by code_simp

lemma library_call_discriminates:
  "\<not> list_all
       (library_call
          [Code [Assign [Name ''m''] (Call (Name ''Mine'') [] []),
                 Expr (Call (Attribute (Name ''m'') ''train'') [Name ''sentences''] [])]])
       (invocations
          [Code [Assign [Name ''m''] (Call (Name ''Mine'') [] []),
                 Expr (Call (Attribute (Name ''m'') ''train'') [Name ''sentences''] [])]]
          library_ops)"
  by code_simp

lemma no_error_handling: "error_handling notebook = []"
  by code_simp

lemma the_branch:
  "branches notebook =
     [IfStmt (UnaryNot (Call (Attribute (Attribute (Name ''os'') ''path'') ''exists'') [Str ''./data/''] []))
        [Expr (Call (Attribute (Name ''os'') ''makedirs'') [Str ''./data/''] [])]
        []]"
  by code_simp

lemma the_loops:
  "map stmt_exprs (loops notebook) =
     [[TupleE [Name ''i'', Name ''fname''], Call (Name ''enumerate'') [Name ''filenames''] []],
      [Name ''line'', Subscript (Name ''sentences'') (Name ''i'')],
      [Name ''fname'', Call (Attribute (Name ''os'') ''listdir'') [Attribute (Name ''self'') ''dirname''] []],
      [Name ''line'',
       Call (Name ''open'')
         [Call (Attribute (Attribute (Name ''os'') ''path'') ''join'')
            [Attribute (Name ''self'') ''dirname'', Name ''fname''] []] []],
      [Name ''line'', Call (Name ''open'') [Name ''lee_train_file''] []]]"
  by code_simp

lemma control_flow_count: "length (control_flow_stmts notebook) = 6"
  by code_simp

lemma the_control_flow_cells: "control_flow_cells notebook = [5, 6, 15]"
  by code_simp

lemma the_control_exprs:
  "control_exprs notebook =
       [UnaryNot (Call (Attribute (Attribute (Name ''os'') ''path'') ''exists'') [Str ''./data/''] []),
        Yield (Call (Attribute (Name ''line'') ''split'') [] []),
        Yield (Call (Attribute (Call (Attribute (Name ''line'') ''lower'') [] []) ''split'') [] [])]"
  by code_simp

lemma the_with_stmts:
  "map stmt_exprs (with_stmts notebook) =
       [[Call (Attribute (Name ''smart_open'') ''smart_open'') [Name ''fname'', Str ''w''] [],
         Name ''fout'']]"
  by code_simp

lemma the_variables_passed_on:
  "variables_passed_on notebook =
       [''filenames'', ''i'', ''fout'', ''dirname'', ''fname'', ''test_data_dir'', ''lee_train_file'',
        ''self'', ''line'', ''sentences'', ''fs'', ''temp_path'', ''new_model'', ''model'',
        ''more_sentences'']"
  by code_simp

lemma the_definitions:
  "map def_name (definitions notebook) =
     [''class MySentences'', ''def __init__'', ''def __iter__'', ''class MyText'', ''def __iter__'']"
  by code_simp

lemma the_logic_defs: "map def_name (logic_defs notebook) = [''def __iter__'', ''def __iter__'']"
  by code_simp

lemma the_nested_callees:
  "nested_callees notebook =
     [''enumerate'', ''smart_open'', ''write'', ''listdir'', ''join'', ''open'', ''split'', ''lower'']"
  by code_simp

lemma no_nested_library_calls:
  "filter (invokes library_ops)
     (stmts_exprs (concat (map sub_stmts (filter is_nesting (statements notebook))))) = []"
  by code_simp

lemma the_operators: "operators notebook = [Add, Add, Add, Add]"
  by code_simp

lemma the_fields: "fields notebook = [''dirname'']"
  by code_simp

lemma the_options: "constructor_options notebook = [''min_count'', ''size'', ''workers'']"
  by code_simp

lemma the_keywords:
  "concat (map keyword_names (expressions notebook)) =
     [''format'', ''level'', ''min_count'', ''min_count'', ''min_count'', ''min_count'', ''size'',
      ''workers'', ''update'', ''positive'', ''negative'', ''topn'']"
  by code_simp

lemma constructor_arguments:
  "map arguments (constructor_calls notebook) =
     [[Name ''sentences''], [Name ''sentences''], [], [Name ''sentences''], [Name ''sentences''],
      [Name ''sentences'']]"
  by code_simp

lemma training_arguments:
  "map arguments (invocations notebook [''build_vocab'', ''train'']) =
     [[Name ''sentences''], [Name ''sentences''], [Name ''more_sentences''], [Name ''more_sentences'']]"
  by code_simp

lemma save_and_load:
  "map callee (invocations notebook [''save'', ''load'']) = [Some ''save'', Some ''load'', Some ''load'']"
  "map arguments (invocations notebook [''save'', ''load'']) =
     [[Name ''temp_path''], [Name ''temp_path''], [Name ''temp_path'']]"
  by code_simp+

lemma the_queries:
  "map callee (invocations notebook [''most_similar'', ''doesnt_match'', ''similarity'']) =
     [Some ''most_similar'', Some ''doesnt_match'', Some ''similarity'', Some ''similarity'']"
  by code_simp

lemma the_analogy_query:
  "map keyword_names (invocations notebook [''most_similar'']) = [[''positive'', ''negative'', ''topn'']]"
  by code_simp

subsection \<open>The library's operations\<close>

text \<open>
  C1. Every invocation in the notebook of \<^verbatim>\<open>Word2Vec\<close>, \<^verbatim>\<open>build_vocab\<close>, \<^verbatim>\<open>train\<close>,
  \<^verbatim>\<open>most_similar\<close>, \<^verbatim>\<open>save\<close> and \<^verbatim>\<open>load\<close> goes to the gensim library: it is a method
  call on an expression that starts at the name \<^verbatim>\<open>gensim\<close>, or on a variable (\<^verbatim>\<open>model\<close>,
  \<^verbatim>\<open>new_model\<close>) that is only ever assigned such a value. The name \<^verbatim>\<open>gensim\<close> is bound by
  the import of cell 2 and by nothing else, each of the six operations is invoked, and
  the notebook binds none of the six names: no class, function, parameter, variable or
  import of it has one of them.
\<close>

theorem library_operations_external:
  "list_all (library_call notebook) (invocations notebook library_ops)
   \<and> map callee (invocations notebook library_ops) =
       [Some ''Word2Vec'', Some ''Word2Vec'', Some ''Word2Vec'', Some ''build_vocab'', Some ''train'',
        Some ''Word2Vec'', Some ''Word2Vec'', Some ''Word2Vec'', Some ''save'', Some ''load'',
        Some ''load'', Some ''build_vocab'', Some ''train'', Some ''most_similar'']
   \<and> binders notebook ''gensim'' = [Import [''gensim'', ''logging'']]
   \<and> defined_here notebook library_ops = []"
  by (intro conjI calls_go_to_library library_invocations gensim_imported none_defined_here)

subsection \<open>Errors\<close>

lemma MySentences_files_ends:
  "(snd (MySentences_files fs self names) = None) =
     list_all (\<lambda>n. content fs (os_path_join (dirname self) n) \<noteq> None) names"
  by (induction names) (auto simp: py_open_def split: option.splits prod.splits)

lemma MySentences_iter_ends:
  "(snd (MySentences_iter fs (MySentences_init d)) = None) =
     (\<exists>names. listing fs d = Some names
        \<and> list_all (\<lambda>n. content fs (os_path_join d n) \<noteq> None) names)"
  by (auto simp: MySentences_iter_def MySentences_init_def os_listdir_def MySentences_files_ends
      split: option.splits)

lemma MyText_iter_ends:
  "(snd (MyText_iter fs gp sep) = None) = (content fs (lee_train_file gp sep) \<noteq> None)"
  by (auto simp: MyText_iter_def py_open_def split: option.splits)

text \<open>
  C6. The notebook has no error-handling construct: no \<^verbatim>\<open>try\<close> with \<^verbatim>\<open>except\<close> or
  \<^verbatim>\<open>finally\<close>, no \<^verbatim>\<open>raise\<close>, no \<^verbatim>\<open>assert\<close>, at any depth. Its one branch is the test of
  cell 5 that creates \<^verbatim>\<open>./data/\<close> when the path does not exist, with no \<^verbatim>\<open>else\<close>; it
  recovers from nothing. So an exception comes from the runtime or the library and is
  passed on: the run of \<^verbatim>\<open>MySentences.__iter__\<close> ends without an exception exactly when
  the directory can be listed and every file named in it opens, and the run of
  \<^verbatim>\<open>MyText.__iter__\<close> exactly when the corpus file opens.
\<close>

theorem errors_propagate:
  "error_handling notebook = []
   \<and> branches notebook =
       [IfStmt (UnaryNot (Call (Attribute (Attribute (Name ''os'') ''path'') ''exists'') [Str ''./data/''] []))
          [Expr (Call (Attribute (Name ''os'') ''makedirs'') [Str ''./data/''] [])]
          []]
   \<and> (snd (MySentences_iter fs (MySentences_init d)) = None) =
       (\<exists>names. listing fs d = Some names
          \<and> list_all (\<lambda>n. content fs (os_path_join d n) \<noteq> None) names)
   \<and> (snd (MyText_iter fs gp sep) = None) = (content fs (lee_train_file gp sep) \<noteq> None)"
  by (intro conjI no_error_handling the_branch MySentences_iter_ends MyText_iter_ends)

subsection \<open>Control flow, data flow and definitions\<close>

text \<open>
  C5, as stated, fails: the notebook is not free of control flow and data flow. It has
  statements that branch or loop, and variables assigned by one statement and read by
  another.
\<close>

theorem notebook_not_linear:
  "control_flow_stmts notebook \<noteq> [] \<and> variables_passed_on notebook \<noteq> []"
  using control_flow_count by (auto simp: the_variables_passed_on)

text \<open>
  C5, amended. The notebook is a sequence of calls to the library with little of its own.
  Its branches and loops are in cells 5, 6 and 15 only and are six statements: the one
  \<^verbatim>\<open>if\<close> of cell 5 and five \<^verbatim>\<open>for\<close> loops, two nested in cell 5, two nested in
  \<^verbatim>\<open>MySentences.__iter__\<close> and one in \<^verbatim>\<open>MyText.__iter__\<close>; there is no \<^verbatim>\<open>while\<close>,
  \<^verbatim>\<open>break\<close>, \<^verbatim>\<open>continue\<close> or \<^verbatim>\<open>return\<close>. Cell 5 has the one \<^verbatim>\<open>with\<close> statement. Of the
  expression forms that steer control it has the \<^verbatim>\<open>not\<close> of the test in cell 5 and the
  \<^verbatim>\<open>yield\<close> of each \<^verbatim>\<open>__iter__\<close>, and no \<^verbatim>\<open>and\<close>, \<^verbatim>\<open>or\<close>, conditional expression,
  comprehension or lambda. Data does flow between its statements: fifteen variables are
  bound and read, nine of them assigned (\<^verbatim>\<open>filenames\<close>, \<^verbatim>\<open>test_data_dir\<close>,
  \<^verbatim>\<open>lee_train_file\<close>, \<^verbatim>\<open>sentences\<close>, \<^verbatim>\<open>fs\<close>, \<^verbatim>\<open>temp_path\<close>, \<^verbatim>\<open>new_model\<close>, \<^verbatim>\<open>model\<close>,
  \<^verbatim>\<open>more_sentences\<close>), four the targets of \<^verbatim>\<open>for\<close> and \<^verbatim>\<open>with\<close> (\<^verbatim>\<open>i\<close>, \<^verbatim>\<open>fname\<close>,
  \<^verbatim>\<open>fout\<close>, \<^verbatim>\<open>line\<close>) and two parameters (\<^verbatim>\<open>self\<close>, \<^verbatim>\<open>dirname\<close>), and one field,
  \<^verbatim>\<open>self.dirname\<close>, is assigned. What it defines are the two classes \<^verbatim>\<open>MySentences\<close>
  and \<^verbatim>\<open>MyText\<close> with their three methods.
\<close>

theorem notebook_control_flow:
  "control_flow_cells notebook = [5, 6, 15]
   \<and> length (control_flow_stmts notebook) = 6
   \<and> branches notebook =
       [IfStmt (UnaryNot (Call (Attribute (Attribute (Name ''os'') ''path'') ''exists'') [Str ''./data/''] []))
          [Expr (Call (Attribute (Name ''os'') ''makedirs'') [Str ''./data/''] [])]
          []]
   \<and> map stmt_exprs (loops notebook) =
       [[TupleE [Name ''i'', Name ''fname''], Call (Name ''enumerate'') [Name ''filenames''] []],
        [Name ''line'', Subscript (Name ''sentences'') (Name ''i'')],
        [Name ''fname'', Call (Attribute (Name ''os'') ''listdir'') [Attribute (Name ''self'') ''dirname''] []],
        [Name ''line'',
         Call (Name ''open'')
           [Call (Attribute (Attribute (Name ''os'') ''path'') ''join'')
              [Attribute (Name ''self'') ''dirname'', Name ''fname''] []] []],
        [Name ''line'', Call (Name ''open'') [Name ''lee_train_file''] []]]
   \<and> map stmt_exprs (with_stmts notebook) =
       [[Call (Attribute (Name ''smart_open'') ''smart_open'') [Name ''fname'', Str ''w''] [],
         Name ''fout'']]
   \<and> control_exprs notebook =
       [UnaryNot (Call (Attribute (Attribute (Name ''os'') ''path'') ''exists'') [Str ''./data/''] []),
        Yield (Call (Attribute (Name ''line'') ''split'') [] []),
        Yield (Call (Attribute (Call (Attribute (Name ''line'') ''lower'') [] []) ''split'') [] [])]
   \<and> variables_passed_on notebook =
       [''filenames'', ''i'', ''fout'', ''dirname'', ''fname'', ''test_data_dir'', ''lee_train_file'',
        ''self'', ''line'', ''sentences'', ''fs'', ''temp_path'', ''new_model'', ''model'',
        ''more_sentences'']
   \<and> fields notebook = [''dirname'']
   \<and> map def_name (definitions notebook) =
       [''class MySentences'', ''def __init__'', ''def __iter__'', ''class MyText'', ''def __iter__'']"
  by (intro conjI the_control_flow_cells control_flow_count the_branch the_loops the_with_stmts
      the_control_exprs the_variables_passed_on the_fields the_definitions)

subsection \<open>What the notebook demonstrates\<close>

text \<open>
  C4, as stated, fails: the option \<^verbatim>\<open>iter\<close> is not among the options that the code cells
  pass to the constructor, and no call of any code cell has a keyword \<^verbatim>\<open>iter\<close>.
\<close>

theorem iter_option_not_passed:
  "\<not> set [''size'', ''min_count'', ''workers'', ''iter''] \<subseteq> set (constructor_options notebook)
   \<and> ''iter'' \<notin> set (concat (map keyword_names (expressions notebook)))"
  by (simp add: the_options the_keywords)

text \<open>
  C4, amended. In its code cells the notebook constructs models with the options
  \<^verbatim>\<open>min_count\<close>, \<^verbatim>\<open>size\<close> and \<^verbatim>\<open>workers\<close>, and with no other; it hands the constructor,
  \<^verbatim>\<open>build_vocab\<close> and \<^verbatim>\<open>train\<close> a sequence of sentences built outside the library
  (\<^verbatim>\<open>sentences\<close>, \<^verbatim>\<open>more_sentences\<close>); it saves a model to a file path and loads it from that
  path; and it queries the vectors with \<^verbatim>\<open>most_similar\<close> (an analogy, with \<^verbatim>\<open>positive\<close>
  and \<^verbatim>\<open>negative\<close> words), \<^verbatim>\<open>doesnt_match\<close> and \<^verbatim>\<open>similarity\<close>.
\<close>

theorem notebook_demonstrates:
  "constructor_options notebook = [''min_count'', ''size'', ''workers'']
   \<and> map arguments (constructor_calls notebook) =
       [[Name ''sentences''], [Name ''sentences''], [], [Name ''sentences''], [Name ''sentences''],
        [Name ''sentences'']]
   \<and> map arguments (invocations notebook [''build_vocab'', ''train'']) =
       [[Name ''sentences''], [Name ''sentences''], [Name ''more_sentences''], [Name ''more_sentences'']]
   \<and> map callee (invocations notebook [''save'', ''load'']) = [Some ''save'', Some ''load'', Some ''load'']
   \<and> map arguments (invocations notebook [''save'', ''load'']) =
       [[Name ''temp_path''], [Name ''temp_path''], [Name ''temp_path'']]
   \<and> map callee (invocations notebook [''most_similar'', ''doesnt_match'', ''similarity'']) =
       [Some ''most_similar'', Some ''doesnt_match'', Some ''similarity'', Some ''similarity'']
   \<and> map keyword_names (invocations notebook [''most_similar'']) = [[''positive'', ''negative'', ''topn'']]"
  by (intro conjI the_options constructor_arguments training_arguments save_and_load the_queries
      the_analogy_query)

subsection \<open>Logic of the notebook's own\<close>

lemma example_run:
  "MySentences_iter example_fs (MySentences_init ''corpus/'') =
     ([[''a'', ''b''], [''Human'', ''Machine''], [], [''Tree'']], None)"
  by (simp add: MySentences_iter_def MySentences_init_def os_listdir_def example_fs_listing
      py_open_def os_path_join_def example_fs_content file_lines_def str_split_def isspace_def)

text \<open>
  C2, as stated, fails: not every function defined in the notebook is free of logic that
  a test can check. The two \<^verbatim>\<open>__iter__\<close> methods have loops in their bodies, and what
  \<^verbatim>\<open>MySentences.__iter__\<close> yields for a given directory is a definite value to test
  against: here a directory of two files, one with an empty line.
\<close>

theorem notebook_has_own_logic:
  "logic_defs notebook \<noteq> []
   \<and> MySentences_iter example_fs (MySentences_init ''corpus/'') =
       ([[''a'', ''b''], [''Human'', ''Machine''], [], [''Tree'']], None)"
  using the_logic_defs example_run by auto

text \<open>
  C2, amended. The notebook has no training loop and no optimization code: the names
  called inside its loops and function bodies are \<^verbatim>\<open>enumerate\<close>, \<^verbatim>\<open>smart_open\<close>,
  \<^verbatim>\<open>write\<close>, \<^verbatim>\<open>listdir\<close>, \<^verbatim>\<open>join\<close>, \<^verbatim>\<open>open\<close>, \<^verbatim>\<open>split\<close> and \<^verbatim>\<open>lower\<close>, none an operation
  of the library, and its only binary operator is \<^verbatim>\<open>+\<close>, in four places. It designs no data
  structure beyond two iterator classes with the single field \<^verbatim>\<open>dirname\<close>. Its own logic
  is in the loops of cell 5 and in the two \<^verbatim>\<open>__iter__\<close> methods, the only functions with
  control flow.
\<close>

theorem notebook_own_logic:
  "map def_name (definitions notebook) =
     [''class MySentences'', ''def __init__'', ''def __iter__'', ''class MyText'', ''def __iter__'']
   \<and> map def_name (logic_defs notebook) = [''def __iter__'', ''def __iter__'']
   \<and> control_flow_cells notebook = [5, 6, 15]
   \<and> nested_callees notebook =
       [''enumerate'', ''smart_open'', ''write'', ''listdir'', ''join'', ''open'', ''split'', ''lower'']
   \<and> filter (invokes library_ops)
         (stmts_exprs (concat (map sub_stmts (filter is_nesting (statements notebook))))) = []
   \<and> operators notebook = [Add, Add, Add, Add]
   \<and> fields notebook = [''dirname'']"
  by (intro conjI the_definitions the_logic_defs the_control_flow_cells the_nested_callees
      no_nested_library_calls the_operators the_fields)

end
